theory Spec2Isabelle
  imports Complex_Main
begin

section \<open>The recommendation service (test-recomm.py)\<close>

subsection \<open>Feature space\<close>

text \<open>
  The two label lists of test-recomm.py and their concatenation
  \<^verbatim>\<open>feature_space = categories + subcategories\<close>.
\<close>

definition categories :: "string list" where
  "categories =
    [''Technology'', ''Sports'', ''Music'', ''Art'', ''Travel'', ''Gaming'', ''Fitness'',
     ''Social Events'', ''Others'']"

definition subcategories :: "string list" where
  "subcategories =
    [''Software & Web Development'', ''Data Science & Machine Learning'',
     ''Cybersecurity & Privacy'', ''Tech Innovation & Startups'',
     ''Team Sports'', ''Outdoor & Adventure Sports'', ''Individual Sports'',
     ''Live Performances & Concerts'', ''Music Festivals'',
     ''Performing Arts'', ''Art Exhibitions & Workshops'',
     ''Adventure Travel & Expeditions'', ''Cultural & Heritage Tours'',
     ''Weekend Getaways & Road Trips'',
     ''eSports & Competitive Gaming'', ''Board Games & Tabletop Meetups'',
     ''Virtual Reality & Tech Gaming'',
     ''Yoga & Mindfulness'', ''Outdoor Fitness'',
     ''Networking & Professional Meetups'', ''Community Volunteering & Social Causes'',
     ''Social Gatherings & Parties'', ''Book Clubs & Interest-Based Groups'',
     ''Sub-Others'']"

definition feature_space :: "string list" where
  "feature_space = categories @ subcategories"

text \<open>
  Python's \<^verbatim>\<open>list.index\<close>: the position of the first element equal to the argument.
  \<open>None\<close> stands for the \<^verbatim>\<open>ValueError\<close> raised when there is none; every call in
  the source is guarded by \<^verbatim>\<open>x in feature_space\<close>, which is \<open>x \<in> set fs\<close> here.
\<close>

fun index_of :: "'a list \<Rightarrow> 'a \<Rightarrow> nat option" where
  "index_of [] x = None"
| "index_of (y # ys) x = (if y = x then Some 0 else map_option Suc (index_of ys x))"

subsection \<open>Documents\<close>

text \<open>
  The MongoDB documents are Python dictionaries. Each is a record of the keys the code
  reads or writes, at the type the key holds in the collection; a field is \<open>None\<close>
  when the key is absent, so that \<^verbatim>\<open>d.get(k, default)\<close> is \<open>get_default\<close>.
  Keys are case sensitive: an event has the keys \<^verbatim>\<open>Latitude\<close> and \<^verbatim>\<open>Longitude\<close>
  that \<^verbatim>\<open>create_event_vector\<close> reads as well as the keys \<^verbatim>\<open>latitude\<close> and
  \<^verbatim>\<open>longitude\<close> that \<^verbatim>\<open>process_ticketmaster_event\<close> writes.
  Numbers are real numbers: the rounding of 64-bit floats is outside the model.
\<close>

definition get_default :: "'a option \<Rightarrow> 'a \<Rightarrow> 'a" where
  "get_default field d = (case field of Some v \<Rightarrow> v | None \<Rightarrow> d)"

record user_profile =
  emailAddresses :: "string option"
  interests :: "string list option"

record subcategory_info =
  category :: "string option"
  categoryCount :: "real option"

record click_counts =
  subCategories :: "subcategory_info list option"

record event =
  title :: "string option"
  venue :: "string option"
  description :: "string option"
  main_category :: "string option"
  sub_category :: "string option"
  Latitude :: "real option"
  Longitude :: "real option"
  latitude :: "real option"
  longitude :: "real option"
  rsvps :: "string list option"

subsection \<open>Vector encoder\<close>

text \<open>
  \<^verbatim>\<open>vector[feature_space.index(l)] = x\<close> and \<^verbatim>\<open>vector[feature_space.index(l)] += x\<close>.
  The vector has the length of the feature space, so the index is in range.
\<close>

definition assign_at :: "string list \<Rightarrow> real list \<Rightarrow> string \<Rightarrow> real \<Rightarrow> real list" where
  "assign_at fs vector l x =
     (case index_of fs l of Some i \<Rightarrow> vector[i := x] | None \<Rightarrow> vector)"

definition add_at :: "string list \<Rightarrow> real list \<Rightarrow> string \<Rightarrow> real \<Rightarrow> real list" where
  "add_at fs vector l x =
     (case index_of fs l of Some i \<Rightarrow> vector[i := vector ! i + x] | None \<Rightarrow> vector)"

text \<open>The bodies of the three loops of \<^verbatim>\<open>create_user_vector\<close>.\<close>

definition encode_interest :: "string list \<Rightarrow> string \<Rightarrow> real list \<Rightarrow> real list" where
  "encode_interest fs interest vector =
     (if interest \<in> set fs then assign_at fs vector interest 1 else vector)"

definition encode_click :: "string list \<Rightarrow> subcategory_info \<Rightarrow> real list \<Rightarrow> real list" where
  "encode_click fs subcategory_info vector =
     (let subcategory = get_default (category subcategory_info) '''';
          count = get_default (categoryCount subcategory_info) 0
      in if subcategory \<in> set fs then add_at fs vector subcategory count else vector)"

definition encode_rsvp :: "string list \<Rightarrow> event \<Rightarrow> real list \<Rightarrow> real list" where
  "encode_rsvp fs rsvp_event vector =
     (let main = get_default (main_category rsvp_event) '''';
          sub = get_default (sub_category rsvp_event) '''';
          vector1 = (if main \<in> set fs then add_at fs vector main 2 else vector)
      in if sub \<in> set fs then add_at fs vector1 sub 2 else vector1)"

definition create_user_vector ::
  "user_profile \<Rightarrow> click_counts \<Rightarrow> event list \<Rightarrow> string list \<Rightarrow> real list" where
  "create_user_vector user_profile click_counts rsvp_counts fs =
     (let vector0 = replicate (length fs) 0;
          vector1 = fold (encode_interest fs) (get_default (interests user_profile) []) vector0;
          vector2 = fold (encode_click fs) (get_default (subCategories click_counts) []) vector1;
          vector3 = fold (encode_rsvp fs) rsvp_counts vector2
      in vector3 @ [0, 0])"

definition create_event_vector :: "event \<Rightarrow> string list \<Rightarrow> real list" where
  "create_event_vector ev fs =
     (let vector0 = replicate (length fs) 0;
          main = get_default (main_category ev) '''';
          sub = get_default (sub_category ev) '''';
          vector1 = (if main \<in> set fs then assign_at fs vector0 main 1 else vector0);
          vector2 = (if sub \<in> set fs then assign_at fs vector1 sub 1 else vector1);
          lat = get_default (Latitude ev) 0;
          lon = get_default (Longitude ev) 0
      in vector2 @ [lat, lon])"

subsection \<open>Recommendation endpoint\<close>

text \<open>
  Exceptions as values. \<open>HTTPException\<close> carries its status code and detail;
  \<open>Fault\<close> is any exception raised by a collaborator (the storage driver,
  \<^verbatim>\<open>ObjectId\<close>, the Annoy library).
\<close>

datatype exn = HTTPException nat string | KeyError string | IndexError | Fault string

fun status_code :: "exn \<Rightarrow> nat option" where
  "status_code (HTTPException c d) = Some c"
| "status_code e = None"

definition and_then :: "exn + 'a \<Rightarrow> ('a \<Rightarrow> exn + 'b) \<Rightarrow> exn + 'b" where
  "and_then r f = (case r of Inl e \<Rightarrow> Inl e | Inr v \<Rightarrow> f v)"

definition subscript :: "string \<Rightarrow> 'a option \<Rightarrow> exn + 'a" where
  \<comment> \<open>\<^verbatim>\<open>d[key]\<close>: a missing key raises \<^verbatim>\<open>KeyError\<close>\<close>
  "subscript key field = (case field of Some v \<Rightarrow> Inr v | None \<Rightarrow> Inl (KeyError key))"

text \<open>
  What \<^verbatim>\<open>recommend_events\<close> calls outside the repository, each call returning a value
  or raising: the conversion of the path parameter to an \<^verbatim>\<open>ObjectId\<close>, the four
  MongoDB queries, the Annoy index (created with a dimension, filled with the numbered
  vectors, built, and asked for the neighbours of a vector with their distances), and
  \<^verbatim>\<open>str\<close> on an exception.
\<close>

record 'oid services =
  ObjectId :: "string \<Rightarrow> exn + 'oid"
  userprofiles_find_one :: "'oid \<Rightarrow> exn + user_profile option"
  clickcounts_find_one :: "string \<Rightarrow> exn + click_counts option"
  events_find_rsvps :: "string \<Rightarrow> exn + event list"
  events_find :: "exn + event list"
  get_nns_by_vector ::
    "nat \<Rightarrow> (nat \<times> real list) list \<Rightarrow> real list \<Rightarrow> int \<Rightarrow> exn + (nat list \<times> real list)"
  str :: "exn \<Rightarrow> string"

text \<open>\<^verbatim>\<open>events[idx]["title"]\<close> for every pair of the zipped result lists.\<close>

fun recommendations :: "event list \<Rightarrow> (nat \<times> real) list \<Rightarrow> exn + (string \<times> real) list" where
  "recommendations events [] = Inr []"
| "recommendations events ((idx, distance) # rest) =
     (if idx < length events
      then and_then (subscript ''title'' (title (events ! idx))) (\<lambda>t.
           and_then (recommendations events rest) (\<lambda>rs. Inr ((t, distance) # rs)))
      else Inl IndexError)"

text \<open>
  The body of the \<^verbatim>\<open>try\<close> block. The source reads
  \<^verbatim>\<open>user_profile["emailAddresses"]\<close> once for each of the two queries it keys; the
  two reads give one value, bound once here. A missing click-count document is replaced
  by the document with an empty \<^verbatim>\<open>subCategories\<close> list.
\<close>

definition recommend_events_try ::
  "'oid services \<Rightarrow> string \<Rightarrow> int \<Rightarrow> exn + (string \<times> real) list" where
  "recommend_events_try sv user_id top_n =
     and_then (ObjectId sv user_id) (\<lambda>oid.
     and_then (userprofiles_find_one sv oid) (\<lambda>found.
       case found of
         None \<Rightarrow> Inl (HTTPException 404 ''User not found'')
       | Some user_profile \<Rightarrow>
           and_then (subscript ''emailAddresses'' (emailAddresses user_profile)) (\<lambda>email.
           and_then (clickcounts_find_one sv email) (\<lambda>cc.
           let click_counts = get_default cc \<lparr>subCategories = Some []\<rparr> in
           and_then (events_find_rsvps sv email) (\<lambda>rsvp_counts.
           let user_vector = create_user_vector user_profile click_counts rsvp_counts feature_space in
           and_then (events_find sv) (\<lambda>events.
           let items = map (\<lambda>(idx, ev). (idx, create_event_vector ev feature_space))
                         (enumerate 0 events) in
           and_then (get_nns_by_vector sv (length feature_space + 2) items user_vector top_n)
             (\<lambda>similar_events_idx.
           recommendations events
             (zip (fst similar_events_idx) (snd similar_events_idx)))))))))"

text \<open>
  \<^verbatim>\<open>except Exception as e: raise HTTPException(status_code=500, detail=str(e))\<close>:
  the handler catches every exception of the block, \<^verbatim>\<open>HTTPException\<close> being a
  subclass of \<^verbatim>\<open>Exception\<close>.
\<close>

definition recommend_events ::
  "'oid services \<Rightarrow> string \<Rightarrow> int \<Rightarrow> exn + (string \<times> real) list" where
  "recommend_events sv user_id top_n =
     (case recommend_events_try sv user_id top_n of
        Inl e \<Rightarrow> Inl (HTTPException 500 (str sv e))
      | Inr recommended_events \<Rightarrow> Inr recommended_events)"

section \<open>The categorizer service (main_new-1.py)\<close>

subsection \<open>Keyword fallback\<close>

text \<open>
  \<^verbatim>\<open>str.lower\<close> on ASCII text: the letters A to Z move to a to z, every other
  character stays.
\<close>

definition lower_char :: "char \<Rightarrow> char" where
  "lower_char c =
     (case map_of (zip ''ABCDEFGHIJKLMNOPQRSTUVWXYZ'' ''abcdefghijklmnopqrstuvwxyz'') c of
        Some l \<Rightarrow> l
      | None \<Rightarrow> c)"

definition lower :: "string \<Rightarrow> string" where
  "lower s = map lower_char s"

text \<open>\<^verbatim>\<open>keyword in text\<close> on strings: the keyword occurs as a contiguous run.\<close>

fun starts_with :: "string \<Rightarrow> string \<Rightarrow> bool" where
  "starts_with [] text = True"
| "starts_with (k # ks) [] = False"
| "starts_with (k # ks) (c # cs) = (k = c \<and> starts_with ks cs)"

fun occurs_in :: "string \<Rightarrow> string \<Rightarrow> bool" where
  "occurs_in keyword [] = (keyword = [])"
| "occurs_in keyword (c # cs) = (starts_with keyword (c # cs) \<or> occurs_in keyword cs)"

text \<open>The two dictionaries of \<^verbatim>\<open>infer_category_from_title\<close>, in insertion order.\<close>

definition category_keywords :: "(string \<times> string list) list" where
  "category_keywords =
    [(''Technology'', [''software'', ''web'', ''development'', ''machine learning'',
                       ''cybersecurity'', ''tech'', ''startup'']),
     (''Sports'', [''game'', ''sports'', ''basketball'', ''football'', ''baseball'', ''hockey'',
                   ''match'', ''tournament'', ''team'', ''adventure'']),
     (''Music'', [''concert'', ''music'', ''show'', ''performance'', ''band'', ''singer'', ''live'']),
     (''Art'', [''festival'', ''art'', ''exhibition'', ''museum'', ''performing'', ''workshop'']),
     (''Travel'', [''tour'', ''expedition'', ''travel'', ''heritage'', ''getaway'']),
     (''Gaming'', [''esports'', ''gaming'', ''virtual reality'', ''board games'']),
     (''Fitness'', [''yoga'', ''fitness'', ''mindfulness'', ''outdoor'']),
     (''Social Events'', [''party'', ''gathering'', ''meetup'', ''social'', ''networking'',
                          ''celebration'', ''volunteer'', ''club'']),
     (''Others'', [''miscellaneous'', ''other''])]"

definition subcategory_mappings :: "(string \<times> string) list" where
  "subcategory_mappings =
    [(''Technology'', ''Tech Innovation & Startups''),
     (''Sports'', ''Team Sports''),
     (''Music'', ''Live Performances & Concerts''),
     (''Art'', ''Art Exhibitions & Workshops''),
     (''Travel'', ''Adventure Travel & Expeditions''),
     (''Gaming'', ''eSports & Competitive Gaming''),
     (''Fitness'', ''Yoga & Mindfulness''),
     (''Social Events'', ''Networking & Professional Meetups''),
     (''Others'', ''Sub-Others'')]"

definition any_keyword :: "string list \<Rightarrow> string \<Rightarrow> bool" where
  \<comment> \<open>\<^verbatim>\<open>any(keyword in combined_text for keyword in keywords)\<close>\<close>
  "any_keyword keywords text = list_ex (\<lambda>keyword. occurs_in keyword text) keywords"

text \<open>
  The loop over \<^verbatim>\<open>category_keywords.items()\<close>, which returns from the function at
  the first group with a keyword in the text; \<open>None\<close> when the loop runs to its end.
\<close>

fun matching_category :: "(string \<times> string list) list \<Rightarrow> string \<Rightarrow> string option" where
  "matching_category [] text = None"
| "matching_category ((cat, keywords) # rest) text =
     (if any_keyword keywords text then Some cat else matching_category rest text)"

definition empty_document :: event where
  "empty_document =
     \<lparr>title = None, venue = None, description = None, main_category = None,
      sub_category = None, Latitude = None, Longitude = None, latitude = None,
      longitude = None, rsvps = None\<rparr>"

definition description_or_default :: "event \<Rightarrow> exn + string" where
  \<comment> \<open>\<^verbatim>\<open>event_data.get('description') or f"Join us for {title} at {venue}!"\<close>\<close>
  "description_or_default event_data =
     (let given = get_default (description event_data) '''' in
      if given \<noteq> '''' then Inr given
      else and_then (subscript ''title'' (title event_data)) (\<lambda>t.
           and_then (subscript ''venue'' (venue event_data)) (\<lambda>v.
           Inr (''Join us for '' @ t @ '' at '' @ v @ ''!''))))"

definition infer_category_from_title :: "event \<Rightarrow> exn + event" where
  "infer_category_from_title event_data =
     and_then (subscript ''title'' (title event_data)) (\<lambda>t.
     let title_lower = lower t;
         desc_lower = lower (get_default (description event_data) '''');
         combined_text = title_lower @ '' '' @ desc_lower
     in case matching_category category_keywords combined_text of
          Some cat \<Rightarrow>
            and_then (subscript cat (map_of subcategory_mappings cat)) (\<lambda>sub.
            and_then (description_or_default event_data) (\<lambda>d.
            Inr (empty_document\<lparr>main_category := Some cat, sub_category := Some sub,
                                 description := Some d\<rparr>)))
        | None \<Rightarrow>
            and_then (description_or_default event_data) (\<lambda>d.
            Inr (empty_document\<lparr>main_category := Some ''Others'',
                                 sub_category := Some ''Sub-Others'',
                                 description := Some d\<rparr>)))"

subsection \<open>Ticketmaster ingestion\<close>

text \<open>
  The part of the Ticketmaster payload that decides the title, venue, description and
  location of the stored event: \<^verbatim>\<open>name\<close>, \<^verbatim>\<open>description\<close>, the list
  \<^verbatim>\<open>_embedded.venues\<close> (each venue with its \<^verbatim>\<open>name\<close> and its
  \<^verbatim>\<open>location.latitude\<close> and \<^verbatim>\<open>location.longitude\<close>) and the list
  \<^verbatim>\<open>images\<close> (each with its \<^verbatim>\<open>url\<close>).
\<close>

record ticketmaster_venue =
  venue_name :: "string option"
  location_latitude :: "real option"
  location_longitude :: "real option"

record ticketmaster_event =
  name :: "string option"
  event_description :: "string option"
  venues :: "ticketmaster_venue list option"
  images :: "string option list option"

definition first_item :: "'a list \<Rightarrow> exn + 'a" where
  \<comment> \<open>\<^verbatim>\<open>xs[0]\<close>\<close>
  "first_item xs = (case xs of [] \<Rightarrow> Inl IndexError | x # _ \<Rightarrow> Inr x)"

definition override :: "'a option \<Rightarrow> 'a option \<Rightarrow> 'a option" where
  "override new old = (case new of Some v \<Rightarrow> Some v | None \<Rightarrow> old)"

definition update_document :: "event \<Rightarrow> event \<Rightarrow> event" where
  \<comment> \<open>\<^verbatim>\<open>event_data.update(enhanced_data)\<close>\<close>
  "update_document d u =
     \<lparr>title = override (title u) (title d),
      venue = override (venue u) (venue d),
      description = override (description u) (description d),
      main_category = override (main_category u) (main_category d),
      sub_category = override (sub_category u) (sub_category d),
      Latitude = override (Latitude u) (Latitude d),
      Longitude = override (Longitude u) (Longitude d),
      latitude = override (latitude u) (latitude d),
      longitude = override (longitude u) (longitude d),
      rsvps = override (rsvps u) (rsvps d)\<rparr>"

text \<open>
  \<^verbatim>\<open>process_ticketmaster_event\<close>, with the categorizer it awaits as a parameter (the
  answer of \<^verbatim>\<open>categorize_with_gpt\<close> depends on the language model; when that
  fails it is \<^verbatim>\<open>infer_category_from_title\<close>). The organizer, image, date and fee
  keys of the stored document are left out: no function modelled here reads them, and
  their computation raises nothing beyond the \<^verbatim>\<open>images[0]\<close> kept below. Any
  exception makes the function return \<^verbatim>\<open>None\<close>.
\<close>

definition process_ticketmaster_event ::
  "(event \<Rightarrow> exn + event) \<Rightarrow> ticketmaster_event \<Rightarrow> event option" where
  "process_ticketmaster_event categorize_with_gpt ev =
     (case
        and_then (first_item (get_default (venues ev)
                    [\<lparr>venue_name = None, location_latitude = None,
                      location_longitude = None\<rparr>])) (\<lambda>v.
        and_then (first_item (get_default (images ev) [None])) (\<lambda>image.
        let event_data =
              \<lparr>title = Some (get_default (name ev) ''''),
               venue = Some (get_default (venue_name v) ''Venue Not Specified''),
               description = Some (get_default (event_description ev) ''''),
               main_category = None, sub_category = None,
               Latitude = None, Longitude = None,
               latitude = location_latitude v,
               longitude = location_longitude v,
               rsvps = Some []\<rparr>
        in and_then (categorize_with_gpt event_data) (\<lambda>enhanced_data.
           Inr (update_document event_data enhanced_data))))
      of Inl e \<Rightarrow> None | Inr event_data \<Rightarrow> Some event_data)"

section \<open>Quantities the properties are stated with\<close>



text \<open>What one click entry and one RSVP'd event add at position \<open>i\<close> of the vector.\<close>

definition click_weight :: "string list \<Rightarrow> nat \<Rightarrow> subcategory_info \<Rightarrow> real" where
  "click_weight fs i info =
     (if index_of fs (get_default (category info) '''') = Some i
      then get_default (categoryCount info) 0 else 0)"

definition rsvp_weight :: "string list \<Rightarrow> nat \<Rightarrow> event \<Rightarrow> real" where
  "rsvp_weight fs i ev =
     (if index_of fs (get_default (main_category ev) '''') = Some i then 2 else 0) +
     (if index_of fs (get_default (sub_category ev) '''') = Some i then 2 else 0)"

section \<open>Concrete inputs\<close>

text \<open>A user, click counts and events on which the properties below are evaluated.\<close>

definition hokie_profile :: user_profile where
  "hokie_profile =
     \<lparr>emailAddresses = Some ''hokie@vt.edu'', interests = Some [''Music'', ''Music'', ''Chess'']\<rparr>"

definition hokie_clicks :: click_counts where
  "hokie_clicks =
     \<lparr>subCategories = Some [\<lparr>category = Some ''Music'', categoryCount = Some 3\<rparr>,
                            \<lparr>category = Some ''Team Sports'', categoryCount = Some 5\<rparr>]\<rparr>"

definition spring_concert :: event where
  "spring_concert =
     empty_document\<lparr>title := Some ''Spring Concert'', main_category := Some ''Music'',
                    sub_category := Some ''Music Festivals''\<rparr>"


definition street_fair :: event where
  "street_fair =
     empty_document\<lparr>title := Some ''Street Fair'', main_category := Some ''Cooking'',
                    Latitude := Some 37, Longitude := Some (-80)\<rparr>"

definition chess_profile :: user_profile where
  "chess_profile = \<lparr>emailAddresses = Some ''rook@vt.edu'', interests = Some [''Chess'']\<rparr>"

definition knitting_clicks :: click_counts where
  "knitting_clicks =
     \<lparr>subCategories = Some [\<lparr>category = Some ''Knitting'', categoryCount = Some 4\<rparr>]\<rparr>"



definition no_such_user :: "string services" where
  "no_such_user =
     \<lparr>ObjectId = Inr,
      userprofiles_find_one = (\<lambda>oid. Inr None),
      clickcounts_find_one = (\<lambda>email. Inr None),
      events_find_rsvps = (\<lambda>email. Inr []),
      events_find = Inr [],
      get_nns_by_vector = (\<lambda>f items vector n. Inr ([], [])),
      str = (\<lambda>e. case e of HTTPException c d \<Rightarrow> d | KeyError k \<Rightarrow> k
                  | IndexError \<Rightarrow> ''list index out of range'' | Fault m \<Rightarrow> m)\<rparr>"

definition moss_payload :: ticketmaster_event where
  "moss_payload =
     \<lparr>name = Some ''Jazz Concert at the Art Museum'',
      event_description = Some ''An evening downtown'',
      venues = Some [\<lparr>venue_name = Some ''Moss Arts Center'',
                      location_latitude = Some 37.23,
                      location_longitude = Some (- 80.42)\<rparr>],
      images = None\<rparr>"

definition stored_jazz_night :: event where
  "stored_jazz_night =
     \<lparr>title = Some ''Jazz Concert at the Art Museum'',
      venue = Some ''Moss Arts Center'',
      description = Some ''An evening downtown'',
      main_category = Some ''Music'',
      sub_category = Some ''Live Performances & Concerts'',
      Latitude = None, Longitude = None,
      latitude = Some 37.23, longitude = Some (- 80.42),
      rsvps = Some []\<rparr>"

section \<open>Properties\<close>

lemmas fs_defs = feature_space_def categories_def subcategories_def


subsection \<open>List index\<close>

lemma index_of_None_iff: "index_of fs l = None \<longleftrightarrow> l \<notin> set fs"
  by (induction fs) auto

lemma index_of_less: "index_of fs l = Some i \<Longrightarrow> i < length fs"
  by (induction fs arbitrary: i) (auto split: if_splits)

lemma index_of_nth: "index_of fs l = Some i \<Longrightarrow> fs ! i = l"
  by (induction fs arbitrary: i) (auto split: if_splits)

lemma index_of_Some_member: "index_of fs l = Some i \<Longrightarrow> l \<in> set fs"
  using index_of_None_iff [of fs l] by auto

lemma index_of_member: "l \<in> set fs \<Longrightarrow> \<exists>i. index_of fs l = Some i"
  using index_of_None_iff [of fs l] by (cases "index_of fs l") auto

lemma index_of_distinct: "distinct fs \<Longrightarrow> i < length fs \<Longrightarrow> index_of fs (fs ! i) = Some i"
  by (induction fs arbitrary: i) (auto simp: nth_Cons split: nat.splits)

subsection \<open>The loops of the encoder, position by position\<close>

lemma length_assign_at [simp]: "length (assign_at fs v l x) = length v"
  by (simp add: assign_at_def split: option.splits)

lemma length_add_at [simp]: "length (add_at fs v l x) = length v"
  by (simp add: add_at_def split: option.splits)

lemma nth_assign_at:
  "length v = length fs \<Longrightarrow> i < length fs \<Longrightarrow>
   assign_at fs v l x ! i = (if index_of fs l = Some i then x else v ! i)"
  by (auto simp: assign_at_def nth_list_update dest: index_of_less split: option.splits)

lemma nth_add_at:
  "length v = length fs \<Longrightarrow> i < length fs \<Longrightarrow>
   add_at fs v l x ! i = v ! i + (if index_of fs l = Some i then x else 0)"
  by (auto simp: add_at_def nth_list_update dest: index_of_less split: option.splits)

lemma length_encode_interest [simp]: "length (encode_interest fs l v) = length v"
  by (simp add: encode_interest_def)

lemma length_encode_click [simp]: "length (encode_click fs c v) = length v"
  by (simp add: encode_click_def Let_def)

lemma length_encode_rsvp [simp]: "length (encode_rsvp fs e v) = length v"
  by (simp add: encode_rsvp_def Let_def)

lemma length_fold_interest [simp]: "length (fold (encode_interest fs) xs v) = length v"
  by (induction xs arbitrary: v) auto

lemma length_fold_click [simp]: "length (fold (encode_click fs) xs v) = length v"
  by (induction xs arbitrary: v) auto

lemma length_fold_rsvp [simp]: "length (fold (encode_rsvp fs) xs v) = length v"
  by (induction xs arbitrary: v) auto

lemma nth_encode_interest:
  "length v = length fs \<Longrightarrow> i < length fs \<Longrightarrow>
   encode_interest fs l v ! i = (if index_of fs l = Some i then 1 else v ! i)"
  by (auto simp: encode_interest_def nth_assign_at dest: index_of_Some_member)

lemma nth_encode_click:
  "length v = length fs \<Longrightarrow> i < length fs \<Longrightarrow>
   encode_click fs info v ! i = v ! i + click_weight fs i info"
  by (auto simp: encode_click_def click_weight_def Let_def nth_add_at dest: index_of_Some_member)

lemma nth_encode_rsvp:
  "length v = length fs \<Longrightarrow> i < length fs \<Longrightarrow>
   encode_rsvp fs ev v ! i = v ! i + rsvp_weight fs i ev"
  by (auto simp: encode_rsvp_def rsvp_weight_def Let_def nth_add_at dest: index_of_Some_member)

lemma nth_fold_interest:
  "length v = length fs \<Longrightarrow> i < length fs \<Longrightarrow>
   fold (encode_interest fs) xs v ! i =
     (if \<exists>l \<in> set xs. index_of fs l = Some i then 1 else v ! i)"
  by (induction xs arbitrary: v) (auto simp: nth_encode_interest)

lemma nth_fold_click:
  "length v = length fs \<Longrightarrow> i < length fs \<Longrightarrow>
   fold (encode_click fs) cs v ! i = v ! i + sum_list (map (click_weight fs i) cs)"
  by (induction cs arbitrary: v) (auto simp: nth_encode_click)

lemma nth_fold_rsvp:
  "length v = length fs \<Longrightarrow> i < length fs \<Longrightarrow>
   fold (encode_rsvp fs) rs v ! i = v ! i + sum_list (map (rsvp_weight fs i) rs)"
  by (induction rs arbitrary: v) (auto simp: nth_encode_rsvp)

lemma length_create_user_vector: "length (create_user_vector p c r fs) = length fs + 2"
  by (simp add: create_user_vector_def Let_def)

lemma nth_create_user_vector:
  "i < length fs \<Longrightarrow>
   create_user_vector p c r fs ! i =
     (if \<exists>l \<in> set (get_default (interests p) []). index_of fs l = Some i then 1 else 0)
     + sum_list (map (click_weight fs i) (get_default (subCategories c) []))
     + sum_list (map (rsvp_weight fs i) r)"
  by (simp add: create_user_vector_def Let_def nth_append nth_fold_rsvp nth_fold_click
      nth_fold_interest)

lemma tail_create_user_vector:
  "length fs \<le> i \<Longrightarrow> i < length fs + 2 \<Longrightarrow> create_user_vector p c r fs ! i = 0"
  by (auto simp: create_user_vector_def Let_def nth_append nth_Cons split: nat.splits)

subsection \<open>One label, one position\<close>

lemma index_of_eq_iff:
  assumes "index_of fs l = Some i"
  shows "index_of fs x = Some i \<longleftrightarrow> x = l"
proof
  assume "index_of fs x = Some i"
  then have "fs ! i = x" by (rule index_of_nth)
  moreover have "fs ! i = l" using assms by (rule index_of_nth)
  ultimately show "x = l" by simp
next
  assume "x = l"
  then show "index_of fs x = Some i" using assms by simp
qed



lemma interest_flag_label:
  assumes "index_of fs l = Some i"
  shows "(\<exists>l' \<in> set xs. index_of fs l' = Some i) \<longleftrightarrow> l \<in> set xs"
  by (simp add: index_of_eq_iff [OF assms])







subsection \<open>Unrecognised labels, equal interest sets, bijection\<close>

lemma fold_interest_unrecognised:
  "\<forall>l \<in> set xs. l \<notin> set fs \<Longrightarrow> fold (encode_interest fs) xs v = v"
  by (induction xs arbitrary: v) (simp_all add: encode_interest_def)

lemma fold_click_unrecognised:
  "\<forall>info \<in> set cs. get_default (category info) '''' \<notin> set fs \<Longrightarrow>
   fold (encode_click fs) cs v = v"
  by (induction cs arbitrary: v) (simp_all add: encode_click_def)

lemma fold_rsvp_unrecognised:
  "\<forall>ev \<in> set rs. get_default (main_category ev) '''' \<notin> set fs \<and>
                   get_default (sub_category ev) '''' \<notin> set fs \<Longrightarrow>
   fold (encode_rsvp fs) rs v = v"
  by (induction rs arbitrary: v) (simp_all add: encode_rsvp_def)

lemma length_create_event_vector: "length (create_event_vector ev fs) = length fs + 2"
  by (simp add: create_event_vector_def Let_def)

lemma same_interest_set:
  assumes "set xs = set ys"
  shows "create_user_vector (p\<lparr>interests := Some xs\<rparr>) c r fs =
         create_user_vector (p\<lparr>interests := Some ys\<rparr>) c r fs"
proof (rule nth_equalityI)
  show "length (create_user_vector (p\<lparr>interests := Some xs\<rparr>) c r fs) =
        length (create_user_vector (p\<lparr>interests := Some ys\<rparr>) c r fs)"
    by (simp add: length_create_user_vector)
next
  fix i assume "i < length (create_user_vector (p\<lparr>interests := Some xs\<rparr>) c r fs)"
  then have i: "i < length fs + 2" by (simp add: length_create_user_vector)
  show "create_user_vector (p\<lparr>interests := Some xs\<rparr>) c r fs ! i =
        create_user_vector (p\<lparr>interests := Some ys\<rparr>) c r fs ! i"
  proof (cases "i < length fs")
    case True
    then show ?thesis using assms by (simp add: nth_create_user_vector get_default_def)
  next
    case False
    then have "length fs \<le> i" by simp
    then show ?thesis using i by (simp add: tail_create_user_vector)
  qed
qed

lemma distinct_feature_space: "distinct feature_space"
  by (simp add: feature_space_def categories_def subcategories_def)

lemma index_of_in_range:
  assumes "l \<in> set fs"
  shows "\<exists>i < length fs. index_of fs l = Some i"
proof -
  obtain i where i: "index_of fs l = Some i"
    using index_of_member [OF assms] by (elim exE)
  moreover have "i < length fs" using i by (rule index_of_less)
  ultimately show ?thesis by (intro exI conjI)
qed

lemma index_of_onto:
  assumes "distinct fs" and "i < length fs"
  shows "\<exists>l \<in> set fs. index_of fs l = Some i"
proof (rule bexI)
  show "index_of fs (fs ! i) = Some i" using assms by (rule index_of_distinct)
  show "fs ! i \<in> set fs" using assms(2) by (rule nth_mem)
qed

lemma index_of_injective:
  assumes "l \<in> set fs" and "index_of fs l = index_of fs l'"
  shows "l = l'"
proof -
  obtain i where i: "index_of fs l = Some i"
    using index_of_member [OF assms(1)] by (elim exE)
  then have "index_of fs l' = Some i" using assms(2) by simp
  then show ?thesis using index_of_eq_iff [OF i, of l'] by simp
qed

lemma index_of_bij_betw:
  assumes "distinct fs"
  shows "bij_betw (\<lambda>l. the (index_of fs l)) (set fs) {0 ..< length fs}"
  unfolding bij_betw_def
proof
  show "inj_on (\<lambda>l. the (index_of fs l)) (set fs)"
  proof (rule inj_onI)
    fix x y assume x: "x \<in> set fs" and y: "y \<in> set fs"
      and eq: "the (index_of fs x) = the (index_of fs y)"
    obtain i where i: "index_of fs x = Some i"
      using index_of_member [OF x] by (elim exE)
    obtain j where j: "index_of fs y = Some j"
      using index_of_member [OF y] by (elim exE)
    from eq i j have "index_of fs x = index_of fs y" by simp
    with x show "x = y" by (rule index_of_injective)
  qed
  show "(\<lambda>l. the (index_of fs l)) ` set fs = {0 ..< length fs}"
  proof (intro equalityI subsetI)
    fix i assume "i \<in> (\<lambda>l. the (index_of fs l)) ` set fs"
    then obtain l where l: "l \<in> set fs" and il: "i = the (index_of fs l)"
      by (elim imageE)
    obtain k where k: "index_of fs l = Some k"
      using index_of_member [OF l] by (elim exE)
    then have "k < length fs" by (rule index_of_less)
    with il k show "i \<in> {0 ..< length fs}" by simp
  next
    fix i assume "i \<in> {0 ..< length fs}"
    then have less: "i < length fs" by simp
    have "index_of fs (fs ! i) = Some i"
      using assms less by (rule index_of_distinct)
    then have "i = the (index_of fs (fs ! i))" by simp
    moreover have "fs ! i \<in> set fs" using less by (rule nth_mem)
    ultimately show "i \<in> (\<lambda>l. the (index_of fs l)) ` set fs"
      by (rule image_eqI)
  qed
qed

subsection \<open>Positions of some labels\<close>

lemma music_in_feature_space: "''Music'' \<in> set feature_space"
  by (simp add: fs_defs)

lemma index_Music: "index_of feature_space ''Music'' = Some 2"
  by (simp add: fs_defs)




subsection \<open>Keyword groups, exceptions, trailing positions\<close>




lemma jazz_text:
  "lower ''Jazz Concert at the Art Museum'' @ '' '' @ lower ''An evening downtown'' =
   ''jazz concert at the art museum an evening downtown''"
  by (simp add: lower_def lower_char_def)


lemma jazz_groups:
  "\<not> any_keyword [''software'', ''web'', ''development'', ''machine learning'',
                    ''cybersecurity'', ''tech'', ''startup'']
       ''jazz concert at the art museum an evening downtown''"
  "\<not> any_keyword [''game'', ''sports'', ''basketball'', ''football'', ''baseball'', ''hockey'',
                   ''match'', ''tournament'', ''team'', ''adventure'']
       ''jazz concert at the art museum an evening downtown''"
  "any_keyword [''concert'', ''music'', ''show'', ''performance'', ''band'', ''singer'', ''live'']
       ''jazz concert at the art museum an evening downtown''"
  "any_keyword [''festival'', ''art'', ''exhibition'', ''museum'', ''performing'', ''workshop'']
       ''jazz concert at the art museum an evening downtown''"
  by (simp_all add: any_keyword_def)


lemma and_then_Inr: "and_then (Inr v) f = f v"
  by (simp add: and_then_def)

lemma and_then_Inl: "and_then (Inl e) f = Inl e"
  by (simp add: and_then_def)

lemma jazz_night_category:
  assumes "title event_data = Some ''Jazz Concert at the Art Museum''"
    and "description event_data = Some ''An evening downtown''"
  shows "infer_category_from_title event_data =
   Inr (empty_document\<lparr>main_category := Some ''Music'',
                        sub_category := Some ''Live Performances & Concerts'',
                        description := Some ''An evening downtown''\<rparr>)"
proof -
  have "matching_category category_keywords
          ''jazz concert at the art museum an evening downtown'' = Some ''Music''"
    by (simp add: category_keywords_def jazz_groups)
  then show ?thesis
    using jazz_text
    by (simp add: infer_category_from_title_def description_or_default_def assms
        get_default_def and_then_def subscript_def subcategory_mappings_def)
qed

lemma recommend_events_only_500:
  "recommend_events sv user_id top_n = Inl e \<Longrightarrow> \<exists>detail. e = HTTPException 500 detail"
  by (auto simp: recommend_events_def split: sum.splits)

lemma trailing_dimensions:
  "drop (length fs) (create_event_vector ev fs) =
     [get_default (Latitude ev) 0, get_default (Longitude ev) 0]"
  by (simp add: create_event_vector_def Let_def)

section \<open>The claims\<close>

subsection \<open>User vector\<close>








text \<open>
  C6. An interest label of the feature space sets its position to exactly 1 (seen on
  a user without clicks and RSVPs, where nothing is added to it), and the user vector
  depends on the interest list only through the set of its labels: listing a label
  more than once gives the vector of listing it once.
\<close>

theorem interest_is_set_membership:
  "(l \<in> set xs \<and> l \<in> set fs \<longrightarrow>
      (\<exists>i. index_of fs l = Some i \<and>
           create_user_vector (p\<lparr>interests := Some xs\<rparr>) \<lparr>subCategories = Some []\<rparr> [] fs ! i = 1)) \<and>
   (set xs = set ys \<longrightarrow>
      create_user_vector (p\<lparr>interests := Some xs\<rparr>) c r fs =
      create_user_vector (p\<lparr>interests := Some ys\<rparr>) c r fs)"
proof (intro conjI impI)
  assume "l \<in> set xs \<and> l \<in> set fs"
  then have l: "l \<in> set xs" and lfs: "l \<in> set fs" by simp_all
  obtain i where i: "index_of fs l = Some i"
    using index_of_member [OF lfs] by (elim exE)
  have less: "i < length fs" using i by (rule index_of_less)
  have "create_user_vector (p\<lparr>interests := Some xs\<rparr>) \<lparr>subCategories = Some []\<rparr> [] fs ! i = 1"
    using l by (simp add: nth_create_user_vector [OF less] get_default_def
        interest_flag_label [OF i])
  with i show "\<exists>i. index_of fs l = Some i \<and>
      create_user_vector (p\<lparr>interests := Some xs\<rparr>) \<lparr>subCategories = Some []\<rparr> [] fs ! i = 1"
    by (intro exI conjI)
next
  assume "set xs = set ys"
  then show "create_user_vector (p\<lparr>interests := Some xs\<rparr>) c r fs =
      create_user_vector (p\<lparr>interests := Some ys\<rparr>) c r fs"
    by (rule same_interest_set)
qed

theorem interest_is_set_membership_witness:
  "''Music'' \<in> set [''Music'', ''Music'', ''Chess''] \<and> ''Music'' \<in> set feature_space \<and>
   set [''Music'', ''Music'', ''Chess''] = set [''Chess'', ''Music''] \<and>
   create_user_vector (hokie_profile\<lparr>interests := Some [''Music'', ''Music'', ''Chess'']\<rparr>)
     \<lparr>subCategories = Some []\<rparr> [] feature_space ! 2 = 1 \<and>
   create_user_vector (hokie_profile\<lparr>interests := Some [''Music'', ''Music'', ''Chess'']\<rparr>)
     hokie_clicks [spring_concert] feature_space =
   create_user_vector (hokie_profile\<lparr>interests := Some [''Chess'', ''Music'']\<rparr>)
     hokie_clicks [spring_concert] feature_space"
proof -
  have present: "''Music'' \<in> set feature_space" by (simp add: fs_defs)
  have sets: "set [''Music'', ''Music'', ''Chess''] = set [''Chess'', ''Music'']" by auto
  have member: "''Music'' \<in> set [''Music'', ''Music'', ''Chess'']" by simp
  note inst = interest_is_set_membership [of "''Music''" "[''Music'', ''Music'', ''Chess'']"
      feature_space hokie_profile "[''Chess'', ''Music'']" hokie_clicks "[spring_concert]"]
  from inst have "\<exists>i. index_of feature_space ''Music'' = Some i \<and>
      create_user_vector (hokie_profile\<lparr>interests := Some [''Music'', ''Music'', ''Chess'']\<rparr>)
        \<lparr>subCategories = Some []\<rparr> [] feature_space ! i = 1"
    using member present by blast
  then have one: "create_user_vector
      (hokie_profile\<lparr>interests := Some [''Music'', ''Music'', ''Chess'']\<rparr>)
      \<lparr>subCategories = Some []\<rparr> [] feature_space ! 2 = 1"
    by (simp add: index_Music)
  from inst have same: "create_user_vector
      (hokie_profile\<lparr>interests := Some [''Music'', ''Music'', ''Chess'']\<rparr>)
      hokie_clicks [spring_concert] feature_space =
    create_user_vector (hokie_profile\<lparr>interests := Some [''Chess'', ''Music'']\<rparr>)
      hokie_clicks [spring_concert] feature_space"
    using sets by blast
  show ?thesis by (intro conjI) (rule member present sets one same)+
qed

subsection \<open>Shape of the vectors\<close>

text \<open>
  C7. For every profile, click counts, RSVP list and event, the user vector and the
  event vector have the length of the feature space plus 2. When none of the labels
  of the input is in the feature space, the user vector is all zeros, and the event
  vector is all zeros up to its two trailing positions, which hold what the keys
  \<^verbatim>\<open>Latitude\<close> and \<^verbatim>\<open>Longitude\<close> hold (0 when absent).
\<close>

theorem vectors_have_fixed_length:
  "length (create_user_vector p c r fs) = length fs + 2 \<and>
   length (create_event_vector ev fs) = length fs + 2 \<and>
   ((\<forall>l \<in> set (get_default (interests p) []). l \<notin> set fs) \<and>
    (\<forall>info \<in> set (get_default (subCategories c) []).
        get_default (category info) '''' \<notin> set fs) \<and>
    (\<forall>e \<in> set r. get_default (main_category e) '''' \<notin> set fs \<and>
                   get_default (sub_category e) '''' \<notin> set fs)
    \<longrightarrow> create_user_vector p c r fs = replicate (length fs) 0 @ [0, 0]) \<and>
   (get_default (main_category ev) '''' \<notin> set fs \<and>
    get_default (sub_category ev) '''' \<notin> set fs
    \<longrightarrow> create_event_vector ev fs =
          replicate (length fs) 0 @ [get_default (Latitude ev) 0, get_default (Longitude ev) 0])"
proof (intro conjI impI)
  show "length (create_user_vector p c r fs) = length fs + 2"
    by (rule length_create_user_vector)
  show "length (create_event_vector ev fs) = length fs + 2"
    by (rule length_create_event_vector)
next
  assume "(\<forall>l \<in> set (get_default (interests p) []). l \<notin> set fs) \<and>
    (\<forall>info \<in> set (get_default (subCategories c) []).
        get_default (category info) '''' \<notin> set fs) \<and>
    (\<forall>e \<in> set r. get_default (main_category e) '''' \<notin> set fs \<and>
                   get_default (sub_category e) '''' \<notin> set fs)"
  then show "create_user_vector p c r fs = replicate (length fs) 0 @ [0, 0]"
    by (simp add: create_user_vector_def Let_def fold_interest_unrecognised
        fold_click_unrecognised fold_rsvp_unrecognised)
next
  assume "get_default (main_category ev) '''' \<notin> set fs \<and>
    get_default (sub_category ev) '''' \<notin> set fs"
  then show "create_event_vector ev fs =
          replicate (length fs) 0 @ [get_default (Latitude ev) 0, get_default (Longitude ev) 0]"
    by (simp add: create_event_vector_def Let_def)
qed

theorem vectors_have_fixed_length_witness:
  "get_default (interests chess_profile) [] = [''Chess''] \<and>
   ''Chess'' \<notin> set feature_space \<and>
   map (\<lambda>info. get_default (category info) '''')
     (get_default (subCategories knitting_clicks) []) = [''Knitting''] \<and>
   ''Knitting'' \<notin> set feature_space \<and>
   get_default (main_category street_fair) '''' = ''Cooking'' \<and>
   ''Cooking'' \<notin> set feature_space \<and>
   get_default (sub_category street_fair) '''' = '''' \<and>
   '''' \<notin> set feature_space \<and>
   length (create_user_vector chess_profile knitting_clicks [street_fair] feature_space) = 35 \<and>
   length (create_event_vector street_fair feature_space) = 35 \<and>
   create_user_vector chess_profile knitting_clicks [street_fair] feature_space =
     replicate 33 0 @ [0, 0] \<and>
   create_event_vector street_fair feature_space = replicate 33 0 @ [37, -80]"
proof -
  have len: "length feature_space = 33" by (simp add: fs_defs)
  have absent: "''Chess'' \<notin> set feature_space" "''Knitting'' \<notin> set feature_space"
    "''Cooking'' \<notin> set feature_space" "'''' \<notin> set feature_space"
    by (simp_all add: fs_defs)
  have h1: "\<forall>l \<in> set (get_default (interests chess_profile) []). l \<notin> set feature_space"
    using absent by (simp add: chess_profile_def get_default_def)
  have h2: "\<forall>info \<in> set (get_default (subCategories knitting_clicks) []).
       get_default (category info) '''' \<notin> set feature_space"
    using absent by (simp add: knitting_clicks_def get_default_def)
  have h3: "\<forall>e \<in> set [street_fair]. get_default (main_category e) '''' \<notin> set feature_space \<and>
                              get_default (sub_category e) '''' \<notin> set feature_space"
    using absent by (simp add: street_fair_def empty_document_def get_default_def)
  have h4: "get_default (main_category street_fair) '''' \<notin> set feature_space \<and>
            get_default (sub_category street_fair) '''' \<notin> set feature_space"
    using h3 by simp
  have geo: "get_default (Latitude street_fair) 0 = 37"
    "get_default (Longitude street_fair) 0 = - 80"
    by (simp_all add: street_fair_def empty_document_def get_default_def)
  note inst = vectors_have_fixed_length [of chess_profile knitting_clicks "[street_fair]"
      feature_space street_fair]
  from inst have l1:
    "length (create_user_vector chess_profile knitting_clicks [street_fair] feature_space) = 35"
    by (simp add: len)
  from inst have l2: "length (create_event_vector street_fair feature_space) = 35"
    by (simp add: len)
  from inst h1 h2 h3 have z1:
    "create_user_vector chess_profile knitting_clicks [street_fair] feature_space =
     replicate 33 0 @ [0, 0]"
    unfolding len by blast
  from inst h4 have "create_event_vector street_fair feature_space =
     replicate (length feature_space) 0 @
       [get_default (Latitude street_fair) 0, get_default (Longitude street_fair) 0]"
    by blast
  then have z2: "create_event_vector street_fair feature_space = replicate 33 0 @ [37, -80]"
    by (simp add: len geo)
  have fields: "get_default (interests chess_profile) [] = [''Chess'']"
    "map (\<lambda>info. get_default (category info) '''')
       (get_default (subCategories knitting_clicks) []) = [''Knitting'']"
    "get_default (main_category street_fair) '''' = ''Cooking''"
    "get_default (sub_category street_fair) '''' = ''''"
    by (simp_all add: chess_profile_def knitting_clicks_def street_fair_def empty_document_def
        get_default_def)
  show ?thesis by (intro conjI) (rule fields absent l1 l2 z1 z2)+
qed

subsection \<open>Feature space\<close>

text \<open>
  C8. The labels of the feature space are pairwise distinct, and the position
  \<^verbatim>\<open>feature_space.index\<close> gives them is a bijection from the labels onto the
  positions below the length: every label has a position in range, every position in
  range is the position of a label, and two labels with one position are equal. The
  feature space is a constant of the module, so that deriving it again gives the same
  list and the same positions.
\<close>

theorem feature_space_index_bijection:
  "distinct feature_space \<and>
   (\<forall>l \<in> set feature_space. \<exists>i < length feature_space. index_of feature_space l = Some i) \<and>
   (\<forall>i < length feature_space. \<exists>l \<in> set feature_space. index_of feature_space l = Some i) \<and>
   (\<forall>l \<in> set feature_space. \<forall>l' \<in> set feature_space.
       index_of feature_space l = index_of feature_space l' \<longrightarrow> l = l') \<and>
   bij_betw (\<lambda>l. the (index_of feature_space l)) (set feature_space)
     {0 ..< length feature_space}"
proof (intro conjI ballI allI impI)
  show "distinct feature_space" by (rule distinct_feature_space)
next
  fix l assume "l \<in> set feature_space"
  then show "\<exists>i < length feature_space. index_of feature_space l = Some i"
    by (rule index_of_in_range)
next
  fix i assume "i < length feature_space"
  with distinct_feature_space
  show "\<exists>l \<in> set feature_space. index_of feature_space l = Some i"
    by (rule index_of_onto)
next
  fix l l' assume "l \<in> set feature_space"
    and "index_of feature_space l = index_of feature_space l'"
  then show "l = l'" by (rule index_of_injective)
next
  show "bij_betw (\<lambda>l. the (index_of feature_space l)) (set feature_space)
     {0 ..< length feature_space}"
    using distinct_feature_space by (rule index_of_bij_betw)
qed

theorem feature_space_index_bijection_witness:
  "''Music'' \<in> set feature_space \<and> ''Sub-Others'' \<in> set feature_space \<and>
   (2::nat) < length feature_space \<and>
   (\<exists>i < length feature_space. index_of feature_space ''Music'' = Some i) \<and>
   (\<exists>l \<in> set feature_space. index_of feature_space l = Some 2) \<and>
   index_of feature_space ''Music'' \<noteq> index_of feature_space ''Sub-Others''"
proof -
  have present: "''Music'' \<in> set feature_space" "''Sub-Others'' \<in> set feature_space"
    by (simp_all add: fs_defs)
  have len: "(2::nat) < length feature_space" by (simp add: fs_defs)
  from feature_space_index_bijection have
    a: "\<forall>l \<in> set feature_space. \<exists>i < length feature_space. index_of feature_space l = Some i"
    and b: "\<forall>i < length feature_space. \<exists>l \<in> set feature_space. index_of feature_space l = Some i"
    and c: "\<forall>l \<in> set feature_space. \<forall>l' \<in> set feature_space.
       index_of feature_space l = index_of feature_space l' \<longrightarrow> l = l'"
    by simp_all
  have f1: "\<exists>i < length feature_space. index_of feature_space ''Music'' = Some i"
    using a present(1) by (rule bspec)
  have f2: "\<exists>l \<in> set feature_space. index_of feature_space l = Some 2"
    using b len by simp
  have "\<forall>l' \<in> set feature_space.
       index_of feature_space ''Music'' = index_of feature_space l' \<longrightarrow> ''Music'' = l'"
    using c present(1) by (rule bspec)
  then have "index_of feature_space ''Music'' = index_of feature_space ''Sub-Others'' \<longrightarrow>
      ''Music'' = ''Sub-Others''"
    using present(2) by (rule bspec)
  then have f3: "index_of feature_space ''Music'' \<noteq> index_of feature_space ''Sub-Others''"
    by auto
  show ?thesis by (intro conjI) (rule present len f1 f2 f3)+
qed

subsection \<open>Event vector and stored location\<close>

text \<open>
  C2 does not hold of the code. \<^verbatim>\<open>create_event_vector\<close> reads the keys
  \<^verbatim>\<open>Latitude\<close> and \<^verbatim>\<open>Longitude\<close>, while \<^verbatim>\<open>process_ticketmaster_event\<close>
  stores the location of the venue under \<^verbatim>\<open>latitude\<close> and \<^verbatim>\<open>longitude\<close>.
  The event stored for a Ticketmaster payload with the venue at 37.23, -80.42 (the
  categorizer being the keyword fallback) holds these two numbers, and the two trailing
  positions of its event vector are 0 and 0.
\<close>

theorem stored_location_is_ignored:
  "process_ticketmaster_event infer_category_from_title moss_payload = Some stored_jazz_night \<and>
   latitude stored_jazz_night = Some 37.23 \<and>
   longitude stored_jazz_night = Some (- 80.42) \<and>
   drop (length feature_space) (create_event_vector stored_jazz_night feature_space) = [0, 0]"
proof -
  let ?event_data =
    "\<lparr>title = Some ''Jazz Concert at the Art Museum'', venue = Some ''Moss Arts Center'',
      description = Some ''An evening downtown'', main_category = None, sub_category = None,
      Latitude = None, Longitude = None, latitude = Some 37.23, longitude = Some (- 80.42),
      rsvps = Some []\<rparr>"
  have enhanced: "infer_category_from_title ?event_data =
      Inr (empty_document\<lparr>main_category := Some ''Music'',
                           sub_category := Some ''Live Performances & Concerts'',
                           description := Some ''An evening downtown''\<rparr>)"
    by (rule jazz_night_category) simp_all
  have "process_ticketmaster_event infer_category_from_title moss_payload =
      (case and_then (infer_category_from_title ?event_data)
              (\<lambda>enhanced_data. Inr (update_document ?event_data enhanced_data))
       of Inl e \<Rightarrow> None | Inr event_data \<Rightarrow> Some event_data)"
    by (simp add: process_ticketmaster_event_def moss_payload_def first_item_def
        and_then_Inr get_default_def Let_def)
  also have "\<dots> = Some (update_document ?event_data
      (empty_document\<lparr>main_category := Some ''Music'',
                       sub_category := Some ''Live Performances & Concerts'',
                       description := Some ''An evening downtown''\<rparr>))"
    by (simp only: enhanced and_then_Inr sum.case)
  also have "\<dots> = Some stored_jazz_night"
    by (simp add: update_document_def override_def empty_document_def stored_jazz_night_def)
  finally have stored: "process_ticketmaster_event infer_category_from_title moss_payload =
      Some stored_jazz_night" .
  have lat: "latitude stored_jazz_night = Some 37.23"
    and lon: "longitude stored_jazz_night = Some (- 80.42)"
    by (simp_all add: stored_jazz_night_def)
  have tail: "drop (length feature_space) (create_event_vector stored_jazz_night feature_space) =
      [0, 0]"
    by (simp add: trailing_dimensions stored_jazz_night_def get_default_def)
  show ?thesis by (intro conjI) (rule stored lat lon tail)+
qed

subsection \<open>Recommendation endpoint\<close>

text \<open>
  C1 does not hold of the code. When the identifier converts to an \<^verbatim>\<open>ObjectId\<close>
  and no profile has it, \<^verbatim>\<open>recommend_events\<close> raises \<^verbatim>\<open>HTTPException(404)\<close>
  inside its \<^verbatim>\<open>try\<close> block; the handler of the block catches it with every other
  exception and raises \<^verbatim>\<open>HTTPException(500)\<close>, whose detail is the text of the
  exception caught. The caller receives the status 500, never 404.
\<close>

theorem missing_user_is_reported_as_500:
  assumes "ObjectId sv user_id = Inr oid" and "userprofiles_find_one sv oid = Inr None"
  shows "recommend_events sv user_id top_n =
           Inl (HTTPException 500 (str sv (HTTPException 404 ''User not found''))) \<and>
         recommend_events sv user_id top_n \<noteq> Inl (HTTPException 404 ''User not found'')"
  using assms by (simp add: recommend_events_def recommend_events_try_def and_then_def)

theorem missing_user_is_reported_as_500_witness:
  "ObjectId no_such_user ''64b7f0c2a1d3e4f5a6b7c8d9'' = Inr ''64b7f0c2a1d3e4f5a6b7c8d9'' \<and>
   userprofiles_find_one no_such_user ''64b7f0c2a1d3e4f5a6b7c8d9'' = Inr None \<and>
   recommend_events no_such_user ''64b7f0c2a1d3e4f5a6b7c8d9'' 10 =
     Inl (HTTPException 500 ''User not found'') \<and>
   status_code (HTTPException 500 ''User not found'') = Some 500"
proof -
  have a: "ObjectId no_such_user ''64b7f0c2a1d3e4f5a6b7c8d9'' = Inr ''64b7f0c2a1d3e4f5a6b7c8d9''"
    by (simp add: no_such_user_def)
  have b: "userprofiles_find_one no_such_user ''64b7f0c2a1d3e4f5a6b7c8d9'' = Inr None"
    by (simp add: no_such_user_def)
  have c: "str no_such_user (HTTPException 404 ''User not found'') = ''User not found''"
    by (simp add: no_such_user_def)
  from missing_user_is_reported_as_500 [OF a b, of 10]
  have d: "recommend_events no_such_user ''64b7f0c2a1d3e4f5a6b7c8d9'' 10 =
     Inl (HTTPException 500 ''User not found'')"
    by (simp add: c)
  have e: "status_code (HTTPException 500 ''User not found'') = Some 500" by simp
  show ?thesis by (intro conjI) (rule a b d e)+
qed

subsection \<open>Keyword fallback\<close>





end
